theory Spec2Isabelle
  imports Complex_Main "HOL-Library.Log_Nat"
begin

section \<open>Data model of the battle simulator (src/battle-sim/src/app/page.tsx)\<close>

text \<open>
  A TypeScript \<open>number\<close> is an IEEE double.  It is modelled by the \<open>real\<close> it denotes;
  the sum and the products of \<open>calculateDamage\<close>, where rounding decides the result,
  are rounded to the nearest double by \<open>fl\<close> below, and its decimal literals are the
  doubles nearest to them.  Elsewhere the arithmetic of the source is exact on the
  values that occur (health and damage are integers far below \<open>2 ^ 53\<close>, \<open>Math.round\<close>
  and the comparisons are exact).  NaN, the infinities and the limits of the exponent
  are outside the model.  The two calls of \<open>Math.random()\<close> in \<open>calculateDamage\<close> and
  the one in the opponent's move choice become explicit arguments (the draws), each
  meant to lie in \<open>[0, 1)\<close>.
\<close>

subsection \<open>Rounding to a double\<close>

text \<open>The binary exponent of a non-zero real: \<open>2 ^ expo x \<le> \<bar>x\<bar> < 2 ^ (expo x + 1)\<close>.\<close>

definition expo :: "real \<Rightarrow> int" where
  "expo x = (if 1 \<le> \<bar>x\<bar> then bitlen \<lfloor>\<bar>x\<bar>\<rfloor> - 1 else - bitlen (\<lceil>1 / \<bar>x\<bar>\<rceil> - 1))"

text \<open>Rounding to the nearest integer, a tie to the even one.\<close>

definition round_even :: "real \<Rightarrow> int" where
  "round_even y = (let f = \<lfloor>y\<rfloor>; d = y - of_int f
                   in if d < 1 / 2 then f else if 1 / 2 < d then f + 1
                      else if even f then f else f + 1)"

text \<open>The double nearest to a real (round to nearest, ties to even): a significand of 53
  bits, that is an integer multiple of \<open>2 ^ (expo x - 52)\<close>.\<close>

definition fl :: "real \<Rightarrow> real" where
  "fl x = (if x = 0 then 0
           else let u = 2 powi (expo x - 52) in of_int (round_even (x / u)) * u)"

datatype Side = Player | Opponent

datatype MoveType = Fire | Water | Grass | Electric | Ice | Psychic | Fairy | Rock

text \<open>Interface \<open>Move\<close>; its fields \<open>name\<close> and \<open>type\<close> are called \<open>mname\<close> and \<open>mtype\<close>
  here, since \<open>name\<close> is also a field of \<open>Pokemon\<close>.\<close>

record Move =
  mname :: string
  mtype :: MoveType
  power :: real
  accuracy :: real
  description :: string

record Pokemon =
  name :: string
  hp :: real
  maxHp :: real
  types :: "MoveType list"
  moves :: "Move list"
  flair :: string

record BattlePokemon = Pokemon +
  energy :: real

record BattleState =
  player :: BattlePokemon
  opponent :: BattlePokemon
  turn :: Side
  victor :: "Side option"

section \<open>Type chart and damage\<close>

text \<open>\<open>TYPE_CHART\<close> is a partial record of partial records: both levels are maps.
  Every attack type has a row in the source, so the outer lookup is never \<open>None\<close>.\<close>

fun TYPE_CHART :: "MoveType \<Rightarrow> (MoveType \<rightharpoonup> real) option" where
  "TYPE_CHART Fire = Some [Grass \<mapsto> 2, Ice \<mapsto> 2, Rock \<mapsto> 0.5, Water \<mapsto> 0.5, Fire \<mapsto> 0.5]"
| "TYPE_CHART Water = Some [Fire \<mapsto> 2, Rock \<mapsto> 2, Grass \<mapsto> 0.5, Electric \<mapsto> 0.5]"
| "TYPE_CHART Grass = Some [Water \<mapsto> 2, Rock \<mapsto> 2, Fire \<mapsto> 0.5, Grass \<mapsto> 0.5]"
| "TYPE_CHART Electric = Some [Water \<mapsto> 2, Grass \<mapsto> 0.5]"
| "TYPE_CHART Ice = Some [Grass \<mapsto> 2, Water \<mapsto> 0.5, Fire \<mapsto> 0.5, Rock \<mapsto> 1]"
| "TYPE_CHART Psychic = Some [Psychic \<mapsto> 0.5]"
| "TYPE_CHART Fairy = Some [Psychic \<mapsto> 1, Fire \<mapsto> 0.5]"
| "TYPE_CHART Rock = Some [Fire \<mapsto> 2, Electric \<mapsto> 1, Grass \<mapsto> 1, Water \<mapsto> 1]"

text \<open>\<open>TYPE_CHART[move.type]?.[typing] ?? 1\<close>: a missing row or entry gives 1.\<close>

definition typeMultiplier :: "MoveType \<Rightarrow> MoveType \<Rightarrow> real" where
  "typeMultiplier attack typing =
     (case TYPE_CHART attack of
        None \<Rightarrow> 1
      | Some row \<Rightarrow> (case row typing of None \<Rightarrow> 1 | Some v \<Rightarrow> v))"

text \<open>\<open>clamp(value, min, max) = Math.max(min, Math.min(max, value))\<close>.\<close>

definition clamp :: "real \<Rightarrow> real \<Rightarrow> real \<Rightarrow> real" where
  "clamp val lo hi = max lo (min hi val)"

text \<open>\<open>Math.round\<close> rounds to the nearest integer, a tie towards plus infinity.\<close>

definition Math_round :: "real \<Rightarrow> real" where
  "Math_round x = of_int \<lfloor>x + 1 / 2\<rfloor>"

record DamageResult =
  damage :: real
  effectiveness :: real
  crit :: bool

text \<open>\<open>calculateDamage(move, defender)\<close>; \<open>rnd1\<close> and \<open>rnd2\<close> are the results of its first
  and second call of \<open>Math.random()\<close>.  The \<open>reduce\<close> over \<open>defender.types\<close> is a left fold
  that starts at 1.  Every sum and product is rounded, in the order in which the
  source evaluates them; \<open>1.5\<close>, \<open>1\<close> and the chart's entries are doubles as they stand.\<close>

definition calculateDamage :: "real \<Rightarrow> real \<Rightarrow> Move \<Rightarrow> 'a Pokemon_scheme \<Rightarrow> DamageResult" where
  "calculateDamage rnd1 rnd2 move defender =
     (let base = power move;
          variation = fl (fl 0.85 + fl (rnd1 * fl 0.2));
          is_crit = (rnd2 < fl 0.1);
          multiplier = foldl (\<lambda>product typing. fl (product * typeMultiplier (mtype move) typing))
                         1 (types defender);
          dmg = Math_round (fl (fl (fl (base * variation) * (if is_crit then 1.5 else 1))
                                * multiplier))
      in \<lparr>damage = clamp dmg 12 90, effectiveness = multiplier, crit = is_crit\<rparr>)"

text \<open>\<open>effectMessage\<close>; \<open>null\<close> is \<open>None\<close>.  The source writes the apostrophe as U+2019 and
  the ellipsis as U+2026; a \<open>string\<close> holds their UTF-8 bytes.\<close>

definition rsquo :: string where
  "rsquo = [CHR 0xE2, CHR 0x80, CHR 0x99]"

definition hellip :: string where
  "hellip = [CHR 0xE2, CHR 0x80, CHR 0xA6]"

definition effectMessage :: "real \<Rightarrow> string option" where
  "effectMessage eff =
     (if eff > 1.5 then Some (''It'' @ rsquo @ ''s super effective!'')
      else if eff < 1 then Some (''It'' @ rsquo @ ''s not very effective'' @ hellip)
      else None)"

section \<open>Static data\<close>

text \<open>\<open>createPokemon\<close> takes a \<open>Pokemon\<close> without \<open>hp\<close> (here: its fields) and adds
  \<open>hp = maxHp\<close> and \<open>energy = 100\<close>.\<close>

definition createPokemon ::
  "string \<Rightarrow> real \<Rightarrow> MoveType list \<Rightarrow> Move list \<Rightarrow> string \<Rightarrow> BattlePokemon" where
  "createPokemon n m ts ms f =
     \<lparr>name = n, hp = m, maxHp = m, types = ts, moves = ms, flair = f, energy = 100\<rparr>"

definition Flare_Cascade :: Move where
  "Flare_Cascade = \<lparr>mname = ''Flare Cascade'', mtype = Fire, power = 36, accuracy = 94,
     description = ''A cascading wave of golden flame that engulfs the arena.''\<rparr>"

definition Solar_Bloom :: Move where
  "Solar_Bloom = \<lparr>mname = ''Solar Bloom'', mtype = Grass, power = 28, accuracy = 100,
     description = ''Harnesses sunlight to bloom radiant petals that heal slightly.''\<rparr>"

definition Aurora_Pulse :: Move where
  "Aurora_Pulse = \<lparr>mname = ''Aurora Pulse'', mtype = Psychic, power = 32, accuracy = 96,
     description = ''A prismatic pulse that disorients the foe.''\<rparr>"

definition Stellar_Crest :: Move where
  "Stellar_Crest = \<lparr>mname = ''Stellar Crest'', mtype = Fairy, power = 30, accuracy = 98,
     description = ''A ribbon of stardust that empowers Solaris'' @ rsquo @ '' aura.''\<rparr>"

definition Nebula_Torrent :: Move where
  "Nebula_Torrent = \<lparr>mname = ''Nebula Torrent'', mtype = Water, power = 34, accuracy = 97,
     description = ''A spiralling column of crystal water.''\<rparr>"

definition Ion_Crash :: Move where
  "Ion_Crash = \<lparr>mname = ''Ion Crash'', mtype = Electric, power = 35, accuracy = 92,
     description = ''Charged lances of electricity crash into the opponent.''\<rparr>"

definition Frostbound_Wake :: Move where
  "Frostbound_Wake = \<lparr>mname = ''Frostbound Wake'', mtype = Ice, power = 27, accuracy = 99,
     description = ''Icy shards ride atop the wave with a chilling finish.''\<rparr>"

definition Anchor_Bloom :: Move where
  "Anchor_Bloom = \<lparr>mname = ''Anchor Bloom'', mtype = Grass, power = 24, accuracy = 100,
     description = ''Sea flora entangles the foe, siphoning their energy.''\<rparr>"

definition PLAYER_TEAM :: BattlePokemon where
  "PLAYER_TEAM = createPokemon ''Solaris'' 260 [Fire, Grass]
     [Flare_Cascade, Solar_Bloom, Aurora_Pulse, Stellar_Crest] ''Charismatic Sun Drake''"

definition OPPONENT_TEAM :: BattlePokemon where
  "OPPONENT_TEAM = createPokemon ''Tidal Vanguard'' 270 [Water, Electric]
     [Nebula_Torrent, Ion_Crash, Frostbound_Wake, Anchor_Bloom] ''Mariner Leviathan''"

definition INITIAL_STATE :: BattleState where
  "INITIAL_STATE = \<lparr>player = PLAYER_TEAM, opponent = OPPONENT_TEAM, turn = Player, victor = None\<rparr>"

definition openingLine :: string where
  "openingLine = ''The arena hums to life as Solaris faces the Tidal Vanguard.''"

section \<open>The component \<open>Home\<close>: state, handlers and timers\<close>

text \<open>
  The state of the component: the React states \<open>battle\<close>, \<open>battleLog\<close> and
  \<open>isResolving\<close>, the ref \<open>battleRef.current\<close>, and the timeouts that \<open>resolveTurn\<close> has
  set and that have not yet run.  Nothing in the source clears these timeouts.  The
  \<open>projectiles\<close> state, \<open>cleanup\<close> and the shake triggers only feed the animation and
  are left out.

  A timeout of 620 ms carries the \<open>side\<close> and \<open>move\<close> its closure captured; the timeout
  of 300 ms set at the end of that callback only clears \<open>isResolving\<close>.
\<close>

datatype timer = Resolution Side Move | Recovery

record Home =
  battle :: BattleState
  battleRef :: BattleState
  battleLog :: "string list"
  isResolving :: bool
  timeouts :: "timer list"

datatype error = TypeError

text \<open>\<open>state[side]\<close> and the computed key \<open>[defenderSide]: ...\<close> of the object spread.\<close>

fun pokemon_of :: "BattleState \<Rightarrow> Side \<Rightarrow> BattlePokemon" where
  "pokemon_of s Player = player s"
| "pokemon_of s Opponent = opponent s"

fun set_pokemon :: "Side \<Rightarrow> BattlePokemon \<Rightarrow> BattleState \<Rightarrow> BattleState" where
  "set_pokemon Player p s = s\<lparr>player := p\<rparr>"
| "set_pokemon Opponent p s = s\<lparr>opponent := p\<rparr>"

text \<open>\<open>side === "player" ? "opponent" : "player"\<close>.\<close>

fun defenderSide_of :: "Side \<Rightarrow> Side" where
  "defenderSide_of Player = Opponent"
| "defenderSide_of Opponent = Player"

text \<open>\<open>.filter(Boolean)\<close> on an array of strings and \<open>null\<close>: it drops \<open>null\<close> and the
  empty string.\<close>

fun filter_Boolean :: "string option list \<Rightarrow> string list" where
  "filter_Boolean [] = []"
| "filter_Boolean (None # xs) = filter_Boolean xs"
| "filter_Boolean (Some s # xs) = (if s = [] then filter_Boolean xs else s # filter_Boolean xs)"

text \<open>The array \<open>messages\<close> of the resolution callback.\<close>

definition messages_of ::
  "BattlePokemon \<Rightarrow> Move \<Rightarrow> BattlePokemon \<Rightarrow> DamageResult \<Rightarrow> real \<Rightarrow> string list" where
  "messages_of attacker move defender r nextHp =
     filter_Boolean
       [Some (name attacker @ '' used '' @ mname move @ ''!''),
        if crit r then Some ''A critical hit!'' else None,
        effectMessage (effectiveness r),
        if nextHp \<le> 0 then Some (name defender @ '' fainted.'') else None]"

text \<open>The effect on \<open>[battle]\<close>: after a render, \<open>battleRef.current = battle\<close>.\<close>

definition sync_ref :: "Home \<Rightarrow> Home" where
  "sync_ref h = h\<lparr>battleRef := battle h\<rparr>"

text \<open>\<open>resetBattle\<close> sets three states (and empties \<open>projectiles\<close>); it leaves the pending
  timeouts alone.\<close>

definition freshState :: BattleState where
  "freshState = \<lparr>player = PLAYER_TEAM\<lparr>hp := maxHp PLAYER_TEAM\<rparr>,
                  opponent = OPPONENT_TEAM\<lparr>hp := maxHp OPPONENT_TEAM\<rparr>,
                  turn = Player, victor = None\<rparr>"

definition resetBattle :: "Home \<Rightarrow> Home" where
  "resetBattle h = h\<lparr>battle := freshState, battleLog := [openingLine], isResolving := False\<rparr>"

text \<open>The guard of \<open>resolveTurn\<close>:
  \<open>current.victor || isResolving || current[side].hp <= 0\<close>, with
  \<open>current = battleRef.current\<close>.\<close>

definition rejects :: "Side \<Rightarrow> Home \<Rightarrow> bool" where
  "rejects side h =
     (victor (battleRef h) \<noteq> None \<or> isResolving h \<or> hp (pokemon_of (battleRef h) side) \<le> 0)"

text \<open>\<open>resolveTurn(side, move)\<close> up to the point where it has set the 620 ms timeout.\<close>

definition resolveTurn :: "Side \<Rightarrow> Move \<Rightarrow> Home \<Rightarrow> Home" where
  "resolveTurn side move h =
     (if rejects side h then h
      else h\<lparr>isResolving := True,
             battle := (battle h)\<lparr>turn := side\<rparr>,
             timeouts := timeouts h @ [Resolution side move]\<rparr>)"

text \<open>The callback of the 620 ms timeout, for the captured \<open>side\<close> and \<open>move\<close>, with the
  two draws of \<open>calculateDamage\<close>.  It reads \<open>battleRef.current\<close>, writes the updated
  state to both \<open>battleRef.current\<close> and \<open>battle\<close>, and sets the 300 ms timeout.\<close>

definition resolution :: "Side \<Rightarrow> Move \<Rightarrow> real \<Rightarrow> real \<Rightarrow> Home \<Rightarrow> Home" where
  "resolution side move rnd1 rnd2 h =
     (let state = battleRef h;
          defenderSide = defenderSide_of side;
          attacker = pokemon_of state side;
          defender = pokemon_of state defenderSide
      in if hp attacker \<le> 0 \<or> victor state \<noteq> None then h\<lparr>isResolving := False\<rparr>
         else
           let r = calculateDamage rnd1 rnd2 move defender;
               nextHp = clamp (hp defender - damage r) 0 (maxHp defender);
               updated0 = set_pokemon defenderSide (defender\<lparr>hp := nextHp\<rparr>)
                            (state\<lparr>turn := defenderSide\<rparr>);
               updated = (if nextHp \<le> 0 then updated0\<lparr>victor := Some side\<rparr> else updated0);
               messages = messages_of attacker move defender r nextHp
           in h\<lparr>battleRef := updated,
                battle := updated,
                battleLog := take 8 (messages @ battleLog h),
                timeouts := timeouts h @ [Recovery]\<rparr>)"

text \<open>The callback of the 300 ms timeout.\<close>

definition recovery :: "Home \<Rightarrow> Home" where
  "recovery h = h\<lparr>isResolving := False\<rparr>"

text \<open>The opponent's effect (lines 465 to 478).  Its 900 ms timeout is set when the
  condition below holds at a render and is cleared by the effect's cleanup as soon as
  \<open>battle.turn\<close>, \<open>battle.victor\<close>, \<open>isResolving\<close> or \<open>resolveTurn\<close> changes; so the timeout can
  run only in a state where the condition holds.\<close>

definition opponentPending :: "Home \<Rightarrow> bool" where
  "opponentPending h = (turn (battle h) = Opponent \<and> victor (battle h) = None \<and> \<not> isResolving h)"

text \<open>\<open>moves[Math.floor(Math.random() * moves.length)]\<close>, called \<open>chooseMove\<close> in the
  specification; an index outside the array gives \<open>undefined\<close>, here \<open>None\<close>.\<close>

definition chooseMove :: "real \<Rightarrow> Move list \<Rightarrow> Move option" where
  "chooseMove rnd ms =
     (let i = \<lfloor>rnd * real (length ms)\<rfloor>
      in if 0 \<le> i \<and> i < int (length ms) then Some (ms ! nat i) else None)"

text \<open>The callback of the opponent's timeout.  With \<open>move\<close> undefined, \<open>resolveTurn\<close>
  returns at its guard or else throws at \<open>move.type\<close>.\<close>

definition opponentTimeout :: "real \<Rightarrow> Home \<Rightarrow> error + Home" where
  "opponentTimeout rnd h =
     (case chooseMove rnd (moves (opponent (battleRef h))) of
        Some move \<Rightarrow> Inr (resolveTurn Opponent move h)
      | None \<Rightarrow> if rejects Opponent h then Inr h else Inl TypeError)"

text \<open>\<open>playerDisabled\<close>: the player's move buttons call \<open>resolveTurn("player", move)\<close> and
  are disabled under this condition.\<close>

definition playerDisabled :: "Home \<Rightarrow> bool" where
  "playerDisabled h = (turn (battle h) \<noteq> Player \<or> victor (battle h) \<noteq> None \<or> isResolving h)"

subsection \<open>Events\<close>

text \<open>
  One event is one run of a handler or of a timeout callback, followed by the render
  and its effect \<open>sync_ref\<close>.  (The effect runs when \<open>battle\<close> has been set; where it
  has not, the ref holds the rendered state already, in every reachable state.)
  \<open>SubmitMove\<close> is a call of \<open>resolveTurn\<close> (the player's buttons make such calls,
  with \<open>side = Player\<close>); \<open>Timeout i\<close> runs the \<open>i\<close>-th pending timeout, in any order;
  the draws of a \<open>Timeout\<close> are used by a resolution callback only.
\<close>

datatype event =
    SubmitMove Side Move
  | ResetBattle
  | Timeout nat real real
  | OpponentTimeout real

fun handler :: "event \<Rightarrow> Home \<Rightarrow> error + Home" where
  "handler (SubmitMove side move) h = Inr (resolveTurn side move h)"
| "handler ResetBattle h = Inr (resetBattle h)"
| "handler (Timeout i rnd1 rnd2) h =
     (if i < length (timeouts h) then
        (let h' = h\<lparr>timeouts := take i (timeouts h) @ drop (Suc i) (timeouts h)\<rparr>
         in case timeouts h ! i of
              Resolution side move \<Rightarrow> Inr (resolution side move rnd1 rnd2 h')
            | Recovery \<Rightarrow> Inr (recovery h'))
      else Inr h)"
| "handler (OpponentTimeout rnd) h =
     (if opponentPending h then opponentTimeout rnd h else Inr h)"

definition dispatch :: "event \<Rightarrow> Home \<Rightarrow> error + Home" where
  "dispatch e h = (case handler e h of Inl err \<Rightarrow> Inl err | Inr h' \<Rightarrow> Inr (sync_ref h'))"

text \<open>\<open>Math.random()\<close> returns a number in \<open>[0, 1)\<close>.\<close>

definition is_draw :: "real \<Rightarrow> bool" where
  "is_draw r = (0 \<le> r \<and> r < 1)"

fun draws_ok :: "event \<Rightarrow> bool" where
  "draws_ok (Timeout i rnd1 rnd2) = (is_draw rnd1 \<and> is_draw rnd2)"
| "draws_ok (OpponentTimeout rnd) = is_draw rnd"
| "draws_ok _ = True"

definition initialHome :: Home where
  "initialHome = \<lparr>battle = INITIAL_STATE, battleRef = INITIAL_STATE,
                   battleLog = [openingLine], isResolving = False, timeouts = []\<rparr>"

inductive reachable :: "Home \<Rightarrow> bool" where
  init: "reachable initialHome"
| step: "reachable h \<Longrightarrow> draws_ok e \<Longrightarrow> dispatch e h = Inr h' \<Longrightarrow> reachable h'"

text \<open>Running a list of events from a state, stopping at the first error.\<close>

fun run :: "event list \<Rightarrow> Home \<Rightarrow> error + Home" where
  "run [] h = Inr h"
| "run (e # es) h = (case dispatch e h of Inl err \<Rightarrow> Inl err | Inr h' \<Rightarrow> run es h')"

section \<open>Auxiliary definitions for the proofs\<close>

text \<open>The result of \<open>calculateDamage\<close> as a function of the numbers it uses.\<close>

definition damage_of :: "real \<Rightarrow> real \<Rightarrow> real \<Rightarrow> real \<Rightarrow> DamageResult" where
  "damage_of base rnd1 rnd2 multiplier =
     (let variation = fl (fl 0.85 + fl (rnd1 * fl 0.2));
          is_crit = (rnd2 < fl 0.1);
          dmg = Math_round (fl (fl (fl (base * variation) * (if is_crit then 1.5 else 1))
                                * multiplier))
      in \<lparr>damage = clamp dmg 12 90, effectiveness = multiplier, crit = is_crit\<rparr>)"

text \<open>The value of \<open>updated\<close> that the resolution callback computes from the state it
  read.\<close>

definition applied :: "Side \<Rightarrow> Move \<Rightarrow> real \<Rightarrow> real \<Rightarrow> BattleState \<Rightarrow> BattleState" where
  "applied side move rnd1 rnd2 state =
     (let defender = pokemon_of state (defenderSide_of side);
          nextHp = clamp (hp defender - damage (calculateDamage rnd1 rnd2 move defender))
                     0 (maxHp defender);
          updated0 = set_pokemon (defenderSide_of side) (defender\<lparr>hp := nextHp\<rparr>)
                       (state\<lparr>turn := defenderSide_of side\<rparr>)
      in if nextHp \<le> 0 then updated0\<lparr>victor := Some side\<rparr> else updated0)"

text \<open>A combatant that differs from its template in \<open>hp\<close> at most.\<close>

definition static_of :: "BattlePokemon \<Rightarrow> BattlePokemon \<Rightarrow> bool" where
  "static_of team p = (p = team\<lparr>hp := hp p\<rparr>)"

text \<open>The invariant of the reachable states: the ref is in step with the rendered
  state, the log is capped, and both combatants are their templates up to \<open>hp\<close>.\<close>

definition inv :: "Home \<Rightarrow> bool" where
  "inv h = (battleRef h = battle h \<and> length (battleLog h) \<le> 8 \<and>
            static_of PLAYER_TEAM (player (battle h)) \<and>
            static_of OPPONENT_TEAM (opponent (battle h)))"

text \<open>Two concrete states for the examples: the state after the player's critical
  Solar Bloom and its recovery, and the state after the opponent's critical Ion Crash
  that follows.\<close>

definition opponentsTurn :: Home where
  "opponentsTurn = initialHome
     \<lparr>battle := INITIAL_STATE\<lparr>opponent := OPPONENT_TEAM\<lparr>hp := 190\<rparr>, turn := Opponent\<rparr>,
      battleRef := INITIAL_STATE\<lparr>opponent := OPPONENT_TEAM\<lparr>hp := 190\<rparr>, turn := Opponent\<rparr>,
      battleLog := [''Solaris used Solar Bloom!'', ''A critical hit!'',
                    ''It'' @ rsquo @ ''s super effective!'', openingLine]\<rparr>"

definition midBattle :: Home where
  "midBattle = initialHome
     \<lparr>battle := INITIAL_STATE\<lparr>player := PLAYER_TEAM\<lparr>hp := 235\<rparr>,
                                opponent := OPPONENT_TEAM\<lparr>hp := 190\<rparr>\<rparr>,
      battleRef := INITIAL_STATE\<lparr>player := PLAYER_TEAM\<lparr>hp := 235\<rparr>,
                                   opponent := OPPONENT_TEAM\<lparr>hp := 190\<rparr>\<rparr>,
      battleLog := [''Tidal Vanguard used Ion Crash!'', ''A critical hit!'',
                    ''It'' @ rsquo @ ''s not very effective'' @ hellip,
                    ''Solaris used Solar Bloom!'', ''A critical hit!'',
                    ''It'' @ rsquo @ ''s super effective!'', openingLine]\<rparr>"

text \<open>A state in which the battle is over: the opponent has fainted.\<close>

definition concluded :: Home where
  "concluded = initialHome
     \<lparr>battle := INITIAL_STATE\<lparr>opponent := OPPONENT_TEAM\<lparr>hp := 0\<rparr>, turn := Opponent,
                                victor := Some Player\<rparr>,
      battleRef := INITIAL_STATE\<lparr>opponent := OPPONENT_TEAM\<lparr>hp := 0\<rparr>, turn := Opponent,
                                   victor := Some Player\<rparr>\<rparr>"

section \<open>Properties of the damage resolver\<close>

lemma clamp_bounds: "lo \<le> hi \<Longrightarrow> lo \<le> clamp v lo hi \<and> clamp v lo hi \<le> hi"
  by (simp add: clamp_def)

subsection \<open>\<open>fl\<close> rounds to a nearest double\<close>

text \<open>\<open>expo\<close> is the binary exponent; \<open>fl x\<close> is an integer of 53 bits (or \<open>2 ^ 53\<close>)
  times \<open>2 ^ (expo x - 52)\<close> and lies within half a unit in the last place of \<open>x\<close>.
  Between two nearest doubles \<open>round_even\<close> takes the one with the even significand.\<close>

lemma expo_bounds:
  assumes "x \<noteq> 0"
  shows "2 powi expo x \<le> \<bar>x\<bar> \<and> \<bar>x\<bar> < 2 powi (expo x + 1)"
proof (cases "1 \<le> \<bar>x\<bar>")
  case True
  let ?n = "\<lfloor>\<bar>x\<bar>\<rfloor>"
  have n: "0 < ?n" using True by linarith
  have e: "expo x = bitlen ?n - 1" using True by (simp add: expo_def)
  have b1: "1 \<le> bitlen ?n" using n by (simp add: bitlen_alt_def)
  from bitlen_bounds [OF n] have lo: "2 ^ nat (bitlen ?n - 1) \<le> ?n" and hi: "?n < 2 ^ nat (bitlen ?n)"
    by blast+
  have "(2::real) powi expo x = 2 ^ nat (bitlen ?n - 1)" using b1 by (simp add: e power_int_def)
  also have "\<dots> = of_int (2 ^ nat (bitlen ?n - 1))" by simp
  also have "\<dots> \<le> of_int ?n" using lo by (simp only: of_int_le_iff)
  also have "\<dots> \<le> \<bar>x\<bar>" by linarith
  finally have L: "2 powi expo x \<le> \<bar>x\<bar>" .
  have "?n + 1 \<le> 2 ^ nat (bitlen ?n)" using hi by linarith
  then have A: "of_int (?n + 1) \<le> (of_int (2 ^ nat (bitlen ?n)) :: real)"
    by (simp only: of_int_le_iff)
  have B: "\<bar>x\<bar> < of_int (?n + 1)" by linarith
  have C: "(of_int (2 ^ nat (bitlen ?n)) :: real) = 2 powi (expo x + 1)"
    using b1 by (simp add: e power_int_def)
  from A B have "\<bar>x\<bar> < (of_int (2 ^ nat (bitlen ?n)) :: real)" by (rule less_le_trans [rotated])
  then have "\<bar>x\<bar> < 2 powi (expo x + 1)" by (simp only: C)
  with L show ?thesis ..
next
  case False
  let ?y = "1 / \<bar>x\<bar>"
  let ?c = "\<lceil>?y\<rceil>"
  have x0: "0 < \<bar>x\<bar>" using assms by simp
  have y1: "1 < ?y" using False x0 by (simp add: field_simps)
  have c: "0 < ?c - 1" using y1 by linarith
  let ?b = "bitlen (?c - 1)"
  have e: "expo x = - ?b" using False by (simp add: expo_def)
  have b1: "1 \<le> ?b" using c by (simp add: bitlen_alt_def)
  from bitlen_bounds [OF c] have lo: "2 ^ nat (?b - 1) \<le> ?c - 1" and hi: "?c - 1 < 2 ^ nat ?b"
    by blast+
  have "?c \<le> 2 ^ nat ?b" using hi by linarith
  then have Z: "of_int ?c \<le> (of_int (2 ^ nat ?b) :: real)" by (simp only: of_int_le_iff)
  have Y: "?y \<le> of_int ?c" by linarith
  from Y Z have "?y \<le> of_int (2 ^ nat ?b)" by (rule order_trans)
  then have yb: "?y \<le> 2 ^ nat ?b" by simp
  have "(2::real) powi expo x = 1 / 2 ^ nat ?b" using b1 by (simp add: e power_int_def field_simps)
  moreover have "1 / 2 ^ nat ?b \<le> \<bar>x\<bar>" using yb x0 by (simp add: field_simps)
  ultimately have L: "2 powi expo x \<le> \<bar>x\<bar>" by simp
  have P: "(of_int (2 ^ nat (?b - 1)) :: real) \<le> of_int (?c - 1)"
    using lo by (simp only: of_int_le_iff)
  have Q: "of_int (?c - 1) < ?y" by linarith
  from P Q have "of_int (2 ^ nat (?b - 1)) < ?y" by (rule le_less_trans)
  then have yl: "2 ^ nat (?b - 1) < ?y" by simp
  have p: "(2::real) powi (expo x + 1) = 1 / 2 ^ nat (?b - 1)"
  proof -
    have "expo x + 1 = - int (nat (?b - 1))" using b1 by (simp add: e)
    then have "(2::real) powi (expo x + 1) = 2 powi (- int (nat (?b - 1)))" by simp
    also have "\<dots> = 1 / 2 ^ nat (?b - 1)"
      by (simp only: power_int_minus_divide power_int_of_nat)
    finally show ?thesis .
  qed
  have "0 < (2::real) ^ nat (?b - 1)" by simp
  with yl x0 have "\<bar>x\<bar> * 2 ^ nat (?b - 1) < 1" by (simp add: field_simps)
  then have "\<bar>x\<bar> < 1 / 2 ^ nat (?b - 1)" by (simp add: field_simps)
  then have "\<bar>x\<bar> < 2 powi (expo x + 1)" by (simp only: p)
  with L show ?thesis ..
qed

lemma round_even_near: "\<bar>of_int (round_even y) - y\<bar> \<le> 1 / 2"
  unfolding round_even_def Let_def by (simp; linarith)

lemma fl_nearest:
  assumes "x \<noteq> 0"
  shows "\<exists>m. fl x = of_int m * 2 powi (expo x - 52) \<and> 2 ^ 52 \<le> \<bar>m\<bar> \<and> \<bar>m\<bar> \<le> 2 ^ 53 \<and>
             \<bar>fl x - x\<bar> \<le> 2 powi (expo x - 53)"
proof -
  let ?u = "(2::real) powi (expo x - 52)"
  let ?y = "x / ?u"
  let ?m = "round_even ?y"
  have u: "0 < ?u" by simp
  have f: "fl x = of_int ?m * ?u" using assms by (simp add: fl_def Let_def)
  have near: "\<bar>of_int ?m - ?y\<bar> \<le> 1 / 2" by (rule round_even_near)
  have s: "(2::real) powi expo x = 2 ^ 52 * ?u" "(2::real) powi (expo x + 1) = 2 ^ 53 * ?u"
    by (simp_all add: power_int_diff power_int_add)
  from expo_bounds [OF assms] have "2 ^ 52 * ?u \<le> \<bar>x\<bar>" and "\<bar>x\<bar> < 2 ^ 53 * ?u"
    by (simp_all only: s)
  then have y: "2 ^ 52 \<le> \<bar>?y\<bar>" "\<bar>?y\<bar> < 2 ^ 53"
    using u by (simp_all add: field_simps)
  from near y have "2 ^ 52 - 1 / 2 \<le> \<bar>real_of_int ?m\<bar>" "\<bar>real_of_int ?m\<bar> < 2 ^ 53 + 1 / 2"
    by linarith+
  then have "real_of_int (2 ^ 52 - 1) < real_of_int \<bar>?m\<bar>"
    and "real_of_int \<bar>?m\<bar> < real_of_int (2 ^ 53 + 1)"
    by simp_all
  then have "2 ^ 52 - 1 < \<bar>?m\<bar>" "\<bar>?m\<bar> < 2 ^ 53 + 1"
    by (simp_all only: of_int_less_iff)
  then have m: "2 ^ 52 \<le> \<bar>?m\<bar>" "\<bar>?m\<bar> \<le> 2 ^ 53" by linarith+
  have "fl x - x = (of_int ?m - ?y) * ?u" using u by (simp add: f field_simps)
  then have "\<bar>fl x - x\<bar> = \<bar>of_int ?m - ?y\<bar> * ?u" using u by (simp add: abs_mult)
  also have "\<dots> \<le> 1 / 2 * ?u" using near u by (intro mult_right_mono) simp_all
  also have "\<dots> = 2 powi (expo x - 53)" by (simp add: power_int_diff)
  finally have "\<bar>fl x - x\<bar> \<le> 2 powi (expo x - 53)" .
  with f m show ?thesis by blast
qed

subsection \<open>Powers of two are doubles\<close>

lemma round_even_of_int [simp]: "round_even (of_int n) = n"
  by (simp add: round_even_def)

lemma expo_powi: "expo (2 powi k) = k"
proof (cases "0 \<le> k")
  case True
  then obtain n where k: "k = int n" using nonneg_int_cases by blast
  have "\<lfloor>(2::real) ^ n\<rfloor> = 2 ^ n" by (metis floor_of_int of_int_numeral of_int_power)
  moreover have "bitlen (2 ^ n) = int n + 1" using bitlen_twopow_add_eq [of 0 n] by simp
  ultimately show ?thesis by (simp add: expo_def k)
next
  case False
  define m where "m = nat (- k) - 1"
  from False have k: "k = - int (Suc m)" by (simp add: m_def)
  have x: "(2::real) powi k = 1 / 2 ^ Suc m"
    unfolding k by (simp only: power_int_minus_divide power_int_of_nat)
  have "(1::real) < 2 ^ Suc m" by (rule one_less_power) simp_all
  then have lt: "\<not> 1 \<le> \<bar>1 / (2::real) ^ Suc m\<bar>" by simp
  have "1 / \<bar>1 / (2::real) ^ Suc m\<bar> = of_int (2 ^ Suc m)" by simp
  then have c: "\<lceil>1 / \<bar>1 / (2::real) ^ Suc m\<bar>\<rceil> = 2 ^ Suc m"
    by (simp only: ceiling_of_int)
  have "bitlen (2 ^ m + (2 ^ m - 1)) = int m + 1"
    using bitlen_twopow_add_eq [of "2 ^ m - 1" m] by simp
  then have b: "bitlen (2 ^ Suc m - 1) = int (Suc m)" by simp
  have "expo (1 / 2 ^ Suc m) = - bitlen (\<lceil>1 / \<bar>1 / (2::real) ^ Suc m\<bar>\<rceil> - 1)"
    unfolding expo_def using lt by (simp only: if_False)
  also have "\<dots> = - int (Suc m)" by (simp only: c b)
  finally have "expo (1 / 2 ^ Suc m) = k" by (simp only: k)
  then show ?thesis by (simp only: x)
qed

lemma fl_powi: "fl (2 powi k) = 2 powi k"
proof -
  have "(2::real) powi k / 2 powi (k - 52) = of_int (2 ^ 52)"
    by (simp add: power_int_diff)
  then have "round_even ((2::real) powi k / 2 powi (k - 52)) = 2 ^ 52"
    by (simp only: round_even_of_int)
  then show ?thesis
    by (simp add: fl_def expo_powi Let_def power_int_diff)
qed

text \<open>Every entry of the chart, and the default 1, is a power of two; so the products of
  the fold are powers of two and their rounding changes nothing.\<close>

lemma typeMultiplier_values: "typeMultiplier a t = 1 / 2 \<or> typeMultiplier a t = 1 \<or> typeMultiplier a t = 2"
  by (cases a; cases t) (simp_all add: typeMultiplier_def)

lemma typeMultiplier_powi: "\<exists>i. typeMultiplier a t = 2 powi i"
proof -
  have "(1 / 2 :: real) = 2 powi (- 1)" and "(1::real) = 2 powi 0" and "(2::real) = 2 powi 1"
    by (simp_all add: power_int_minus_divide)
  with typeMultiplier_values [of a t] show ?thesis by metis
qed

lemma foldl_fl_exact:
  "foldl (\<lambda>product typing. fl (product * typeMultiplier a typing)) (2 powi j) ts
     = 2 powi j * prod_list (map (typeMultiplier a) ts)"
proof (induction ts arbitrary: j)
  case Nil
  then show ?case by simp
next
  case (Cons t ts)
  obtain i where i: "typeMultiplier a t = 2 powi i" using typeMultiplier_powi by blast
  have m: "(2::real) powi j * 2 powi i = 2 powi (j + i)" by (simp add: power_int_add)
  show ?case using Cons.IH [of "j + i"] by (simp add: i m fl_powi mult.assoc)
qed

lemma calculateDamage_eval:
  "calculateDamage rnd1 rnd2 move d =
     damage_of (power move) rnd1 rnd2 (prod_list (map (typeMultiplier (mtype move)) (types d)))"
  using foldl_fl_exact [of "mtype move" 0 "types d"]
  by (simp add: calculateDamage_def damage_of_def Let_def)

subsection \<open>Values at concrete draws\<close>

lemma damage_of_values:
  "damage_of 36 (1 / 2) (1 / 2) (1 / 2) = \<lparr>damage = 17, effectiveness = 1 / 2, crit = False\<rparr>"
  "damage_of 36 (1 / 2) (1 / 20) (1 / 2) = \<lparr>damage = 26, effectiveness = 1 / 2, crit = True\<rparr>"
  "damage_of 28 (1 / 2) (1 / 20) 2 = \<lparr>damage = 80, effectiveness = 2, crit = True\<rparr>"
  "damage_of 35 (1 / 2) (1 / 20) (1 / 2) = \<lparr>damage = 25, effectiveness = 1 / 2, crit = True\<rparr>"
  "damage_of 36 (6004799503160661 / 18014398509481984) (1 / 2) (1 / 2)
     = \<lparr>damage = 17, effectiveness = 1 / 2, crit = False\<rparr>"
  "damage_of 24 (1 / 2) (1 / 2) (1 / 4) = \<lparr>damage = 12, effectiveness = 1 / 4, crit = False\<rparr>"
  "damage_of 28 (1 / 2) (1 / 20) 4 = \<lparr>damage = 90, effectiveness = 4, crit = True\<rparr>"
  by code_simp+

lemma crit_both_values:
  "is_draw (1 / 20) \<and> 1 / 20 < fl 0.1 \<and> is_draw (1 / 2) \<and> \<not> 1 / 2 < fl 0.1"
  unfolding is_draw_def by code_simp

text \<open>The least and the greatest variation factor: the doubles nearest to 0.85 and to
  1.05, reached at the draws 0 and \<open>1 - 2 ^ - 53\<close>.\<close>

lemma variation_ends:
  "fl (fl 0.85 + fl (0 * fl 0.2)) = fl 0.85"
  "fl (fl 0.85 + fl ((1 - 1 / 2 ^ 53) * fl 0.2)) = fl 1.05"
  by code_simp+

section \<open>The claims on the damage resolver\<close>

text \<open>
  Claim C3.  For every move, every defender and all draws in \<open>[0, 1)\<close>: the variation
  factor is the double computation of \<open>0.85 + rnd1 * 0.2\<close>, a real in \<open>[0.85, 1.05)\<close>; the
  crit flag is \<open>rnd2 < 0.1\<close>; and the damage returned by \<open>calculateDamage\<close> is
  \<open>round (power * variation * (1.5 if crit else 1) * effectiveness)\<close>, the products taken
  in doubles from left to right and the effectiveness being the product of the chart
  entries over the defender's types, clamped to \<open>[12, 90]\<close>; so the damage is at least
  12 and at most 90.
\<close>

theorem calculateDamage_formula:
  assumes "is_draw rnd1" and "is_draw rnd2"
  shows "let variation = fl (fl 0.85 + fl (rnd1 * fl 0.2));
             is_crit = (rnd2 < fl 0.1);
             eff = prod_list (map (\<lambda>typing. case TYPE_CHART (mtype move) of
                                                None \<Rightarrow> 1
                                              | Some row \<Rightarrow>
                                                  (case row typing of None \<Rightarrow> 1 | Some v \<Rightarrow> v))
                                   (types defender));
             res = calculateDamage rnd1 rnd2 move defender
         in 0.85 \<le> 0.85 + rnd1 * 0.2 \<and> 0.85 + rnd1 * 0.2 < (1.05::real) \<and>
            crit res = is_crit \<and>
            damage res = clamp (Math_round (fl (fl (fl (power move * variation)
                                                     * (if is_crit then 1.5 else 1)) * eff)))
                           12 90 \<and>
            12 \<le> damage res \<and> damage res \<le> 90"
  using assms(1)
  by (simp add: Let_def calculateDamage_eval damage_of_def clamp_def is_draw_def
      typeMultiplier_def [abs_def])

text \<open>The witnesses: a critical Solar Bloom against Water and Electric (effectiveness 2)
  does 80; Flare Cascade at the draw nearest to one third does 17, where the products
  taken in exact arithmetic would give 16; the bounds 12 and 90 are reached.\<close>

theorem calculateDamage_formula_witness:
  "is_draw (1 / 2) \<and> is_draw (1 / 20) \<and> is_draw (6004799503160661 / 18014398509481984) \<and>
   calculateDamage (1 / 2) (1 / 20) Solar_Bloom OPPONENT_TEAM
     = \<lparr>damage = 80, effectiveness = 2, crit = True\<rparr> \<and>
   calculateDamage (6004799503160661 / 18014398509481984) (1 / 2) Flare_Cascade OPPONENT_TEAM
     = \<lparr>damage = 17, effectiveness = 1 / 2, crit = False\<rparr> \<and>
   \<lfloor>36 * (0.85 + 6004799503160661 / 18014398509481984 * 0.2) * (1 / 2) + 1 / (2::real)\<rfloor> = 16 \<and>
   damage (calculateDamage (1 / 2) (1 / 2) Anchor_Bloom PLAYER_TEAM) = 12 \<and>
   damage (calculateDamage (1 / 2) (1 / 20) Solar_Bloom (OPPONENT_TEAM\<lparr>types := [Water, Rock]\<rparr>)) = 90"
  using calculateDamage_formula [of "1 / 2" "1 / 20" Solar_Bloom OPPONENT_TEAM]
    calculateDamage_formula [of "6004799503160661 / 18014398509481984" "1 / 2" Flare_Cascade OPPONENT_TEAM]
  by (simp add: is_draw_def calculateDamage_eval damage_of_values typeMultiplier_def
      Flare_Cascade_def Solar_Bloom_def Anchor_Bloom_def OPPONENT_TEAM_def PLAYER_TEAM_def
      createPokemon_def)

text \<open>
  Claim C4.  The effectiveness returned by \<open>calculateDamage\<close> is the product, over the
  defender's types, of the \<open>TYPE_CHART\<close> entry for the move's type and that type, a
  missing entry counting as 1; for a defender with two types it is the product of the
  two multipliers.
\<close>

theorem effectiveness_product:
  "effectiveness (calculateDamage rnd1 rnd2 move defender)
     = prod_list (map (\<lambda>typing. case TYPE_CHART (mtype move) of
                                   None \<Rightarrow> 1
                                 | Some row \<Rightarrow> (case row typing of None \<Rightarrow> 1 | Some v \<Rightarrow> v))
                      (types defender)) \<and>
   (\<forall>t1 t2. effectiveness (calculateDamage rnd1 rnd2 move (defender\<lparr>types := [t1, t2]\<rparr>))
              = typeMultiplier (mtype move) t1 * typeMultiplier (mtype move) t2)"
  by (simp add: calculateDamage_eval damage_of_def Let_def typeMultiplier_def [abs_def])

text \<open>The witness: Fire against Grass and Ice is 2 * 2 = 4; against Grass and Rock it
  is 2 * 0.5 = 1 (the sum would be 2.5, the maximum 2); two missing entries give 1.\<close>

theorem effectiveness_product_witness:
  "effectiveness (calculateDamage 0 0 Flare_Cascade (PLAYER_TEAM\<lparr>types := [Grass, Ice]\<rparr>)) = 4 \<and>
   effectiveness (calculateDamage 0 0 Flare_Cascade (PLAYER_TEAM\<lparr>types := [Grass, Rock]\<rparr>)) = 1 \<and>
   effectiveness (calculateDamage 0 0 Flare_Cascade (PLAYER_TEAM\<lparr>types := [Psychic, Fairy]\<rparr>)) = 1"
  using effectiveness_product [of 0 0 Flare_Cascade PLAYER_TEAM]
  by (simp add: typeMultiplier_def Flare_Cascade_def)

section \<open>The handlers and the resolution callback\<close>

lemmas eval_defs = dispatch_def resolveTurn_def rejects_def initialHome_def INITIAL_STATE_def
  PLAYER_TEAM_def OPPONENT_TEAM_def createPokemon_def sync_ref_def resetBattle_def freshState_def
  resolution_def calculateDamage_eval damage_of_values Let_def typeMultiplier_def clamp_def
  messages_of_def effectMessage_def recovery_def

lemma clamp_nonneg: "0 \<le> clamp v 0 hi"
  by (simp add: clamp_def)

lemma pokemon_of_turn [simp]: "pokemon_of (s\<lparr>turn := t\<rparr>) x = pokemon_of s x"
  by (cases x) simp_all

lemma messages_of_eq:
  "messages_of attacker move defender r nextHp =
     [name attacker @ '' used '' @ mname move @ ''!''] @
     (if crit r then [''A critical hit!''] else []) @
     (if effectiveness r > 1.5 then [''It'' @ rsquo @ ''s super effective!'']
      else if effectiveness r < 1 then [''It'' @ rsquo @ ''s not very effective'' @ hellip]
      else []) @
     (if nextHp \<le> 0 then [name defender @ '' fainted.''] else [])"
  by (simp add: messages_of_def effectMessage_def)

lemma messages_of_length:
  "1 \<le> length (messages_of attacker move defender r nextHp) \<and>
   length (messages_of attacker move defender r nextHp) \<le> 4"
  by (simp add: messages_of_eq)

lemma take_8_messages:
  "length msgs \<le> 8 \<Longrightarrow> take 8 (msgs @ old) = msgs @ take (8 - length msgs) old"
  by simp

text \<open>The same with the number of entries that go: the old log loses its last
  \<open>length msgs + length old - 8\<close> entries.\<close>

lemma take_8_excess:
  assumes "length msgs \<le> 8"
  shows "take 8 (msgs @ old) = msgs @ take (length old - (length msgs + length old - 8)) old"
proof (cases "8 - length msgs \<le> length old")
  case True
  with assms have "length old - (length msgs + length old - 8) = 8 - length msgs" by arith
  with assms show ?thesis by simp
next
  case False
  with assms have "length old - (length msgs + length old - 8) = length old" by arith
  with assms False show ?thesis by simp
qed

lemma resolution_aborted:
  "hp (pokemon_of (battleRef h) side) \<le> 0 \<or> victor (battleRef h) \<noteq> None \<Longrightarrow>
   resolution side move rnd1 rnd2 h = h\<lparr>isResolving := False\<rparr>"
  by (auto simp add: resolution_def Let_def)

lemma resolution_applied:
  assumes "0 < hp (pokemon_of (battleRef h) side)" and "victor (battleRef h) = None"
  shows "resolution side move rnd1 rnd2 h =
     (let state = battleRef h;
          defender = pokemon_of state (defenderSide_of side);
          r = calculateDamage rnd1 rnd2 move defender;
          nextHp = clamp (hp defender - damage r) 0 (maxHp defender)
      in h\<lparr>battleRef := applied side move rnd1 rnd2 state,
           battle := applied side move rnd1 rnd2 state,
           battleLog := take 8 (messages_of (pokemon_of state side) move defender r nextHp
                                @ battleLog h),
           timeouts := timeouts h @ [Recovery]\<rparr>)"
  using assms by (simp add: resolution_def applied_def Let_def)

lemma applied_defender:
  "pokemon_of (applied side move rnd1 rnd2 s) (defenderSide_of side) =
     (pokemon_of s (defenderSide_of side))
       \<lparr>hp := clamp (hp (pokemon_of s (defenderSide_of side))
                      - damage (calculateDamage rnd1 rnd2 move (pokemon_of s (defenderSide_of side))))
                   0 (maxHp (pokemon_of s (defenderSide_of side)))\<rparr>"
  by (cases side) (simp_all add: applied_def Let_def)

lemma applied_attacker:
  "pokemon_of (applied side move rnd1 rnd2 s) side = pokemon_of s side"
  by (cases side) (simp_all add: applied_def Let_def)

lemma applied_turn: "turn (applied side move rnd1 rnd2 s) = defenderSide_of side"
  by (cases side) (simp_all add: applied_def Let_def)

lemma applied_victor:
  "victor (applied side move rnd1 rnd2 s) =
     (if hp (pokemon_of (applied side move rnd1 rnd2 s) (defenderSide_of side)) = 0 then Some side
      else victor s)"
  using clamp_nonneg [of "hp (pokemon_of s (defenderSide_of side))
      - damage (calculateDamage rnd1 rnd2 move (pokemon_of s (defenderSide_of side)))"
      "maxHp (pokemon_of s (defenderSide_of side))"]
  by (cases side) (auto simp add: applied_def Let_def)

text \<open>An accepted submission followed at once by its own timeout.\<close>

lemma submit_then_timeout:
  assumes "\<not> rejects side h"
  shows "run [SubmitMove side move, Timeout (length (timeouts h)) rnd1 rnd2] h =
           Inr (sync_ref (resolution side move rnd1 rnd2
                  (h\<lparr>isResolving := True, battle := (battle h)\<lparr>turn := side\<rparr>,
                     battleRef := (battle h)\<lparr>turn := side\<rparr>\<rparr>)))"
proof -
  let ?s = "(battle h)\<lparr>turn := side\<rparr>"
  let ?h1 = "h\<lparr>isResolving := True, battle := ?s, battleRef := ?s\<rparr>"
  have d1: "dispatch (SubmitMove side move) h
              = Inr (?h1\<lparr>timeouts := timeouts h @ [Resolution side move]\<rparr>)"
    using assms by (simp add: dispatch_def resolveTurn_def sync_ref_def)
  have d2: "dispatch (Timeout (length (timeouts h)) rnd1 rnd2)
              (?h1\<lparr>timeouts := timeouts h @ [Resolution side move]\<rparr>)
            = Inr (sync_ref (resolution side move rnd1 rnd2 ?h1))"
    by (simp add: dispatch_def Let_def)
  show ?thesis by (simp add: d1 d2)
qed

section \<open>The invariant of the reachable states\<close>

lemma inv_init: "inv initialHome"
  by (simp add: inv_def initialHome_def INITIAL_STATE_def static_of_def openingLine_def)

lemma static_of_hp: "static_of team p \<Longrightarrow> static_of team (p\<lparr>hp := v\<rparr>)"
  by (simp add: static_of_def)
    (metis Pokemon.update_convs(2) Pokemon.select_convs(2) Pokemon.surjective)

lemma static_of_applied:
  assumes "static_of PLAYER_TEAM (player s)" and "static_of OPPONENT_TEAM (opponent s)"
  shows "static_of PLAYER_TEAM (player (applied side move rnd1 rnd2 s)) \<and>
         static_of OPPONENT_TEAM (opponent (applied side move rnd1 rnd2 s))"
  using assms by (cases side) (simp_all add: applied_def Let_def static_of_hp)

lemma inv_resolveTurn: "inv h \<Longrightarrow> inv (sync_ref (resolveTurn side move h))"
  by (simp add: inv_def resolveTurn_def sync_ref_def)

lemma inv_reset: "inv h \<Longrightarrow> inv (sync_ref (resetBattle h))"
  by (simp add: inv_def resetBattle_def sync_ref_def freshState_def static_of_def)

lemma inv_resolution:
  assumes "inv h"
  shows "inv (sync_ref (resolution side move rnd1 rnd2 h))"
proof (cases "0 < hp (pokemon_of (battleRef h) side) \<and> victor (battleRef h) = None")
  case True
  then show ?thesis
    using assms static_of_applied [of "battle h" side move rnd1 rnd2]
    by (simp add: resolution_applied Let_def inv_def sync_ref_def)
next
  case False
  then have "resolution side move rnd1 rnd2 h = h\<lparr>isResolving := False\<rparr>"
    by (intro resolution_aborted) auto
  then show ?thesis using assms by (simp add: inv_def sync_ref_def)
qed

lemma inv_timeouts: "inv h \<Longrightarrow> inv (h\<lparr>timeouts := ts\<rparr>)"
  by (simp add: inv_def)

lemma inv_dispatch:
  assumes "inv h" and "dispatch e h = Inr h'"
  shows "inv h'"
proof (cases e)
  case (SubmitMove side move)
  with assms show ?thesis by (auto simp: dispatch_def inv_resolveTurn)
next
  case ResetBattle
  with assms show ?thesis by (auto simp: dispatch_def inv_reset)
next
  case (Timeout i rnd1 rnd2)
  show ?thesis
  proof (cases "i < length (timeouts h)")
    case False
    with assms Timeout show ?thesis by (auto simp: dispatch_def inv_def sync_ref_def)
  next
    case True
    let ?h = "h\<lparr>timeouts := take i (timeouts h) @ drop (Suc i) (timeouts h)\<rparr>"
    have i: "inv ?h" using assms(1) by (rule inv_timeouts)
    show ?thesis
    proof (cases "timeouts h ! i")
      case (Resolution side move)
      with assms(2) Timeout True have "h' = sync_ref (resolution side move rnd1 rnd2 ?h)"
        by (simp add: dispatch_def Let_def)
      with i show ?thesis by (simp add: inv_resolution)
    next
      case Recovery
      with assms(2) Timeout True have "h' = sync_ref (recovery ?h)"
        by (simp add: dispatch_def Let_def)
      with i show ?thesis by (simp add: inv_def recovery_def sync_ref_def)
    qed
  qed
next
  case (OpponentTimeout rnd)
  with assms(2) have "h' = sync_ref h \<or> (\<exists>m. h' = sync_ref (resolveTurn Opponent m h))"
    by (auto simp: dispatch_def opponentTimeout_def split: if_splits option.splits sum.splits)
  with assms(1) show ?thesis by (auto simp: inv_resolveTurn) (simp add: inv_def sync_ref_def)
qed

lemma reachable_inv: "reachable h \<Longrightarrow> inv h"
  by (induction rule: reachable.induct) (auto intro: inv_init inv_dispatch)

lemma reachable_synced: "reachable h \<Longrightarrow> battleRef h = battle h"
  by (drule reachable_inv) (simp add: inv_def)

lemma reachable_log_length: "reachable h \<Longrightarrow> length (battleLog h) \<le> 8"
  by (drule reachable_inv) (simp add: inv_def)

lemma reachable_opponent_moves:
  assumes "reachable h"
  shows "moves (opponent (battleRef h)) = [Nebula_Torrent, Ion_Crash, Frostbound_Wake, Anchor_Bloom]"
proof -
  from assms have "inv h" by (rule reachable_inv)
  then have "opponent (battle h) = OPPONENT_TEAM\<lparr>hp := hp (opponent (battle h))\<rparr>"
    and "battleRef h = battle h"
    by (simp_all add: inv_def static_of_def)
  then have "moves (opponent (battleRef h)) = moves (OPPONENT_TEAM\<lparr>hp := hp (opponent (battle h))\<rparr>)"
    by simp
  then show ?thesis by (simp add: OPPONENT_TEAM_def createPokemon_def)
qed

lemma reachable_run:
  "reachable h \<Longrightarrow> list_all draws_ok es \<Longrightarrow> run es h = Inr h' \<Longrightarrow> reachable h'"
proof (induction es arbitrary: h)
  case Nil
  then show ?case by simp
next
  case (Cons e es)
  from Cons.prems(3) obtain h1 where d: "dispatch e h = Inr h1" and r: "run es h1 = Inr h'"
    by (auto split: sum.splits)
  from Cons.prems(1,2) d have "reachable h1" by (auto intro: reachable.step)
  with Cons.IH [of h1] Cons.prems(2) r show ?case by simp
qed

lemma opponentsTurn_run:
  "run [SubmitMove Player Solar_Bloom, Timeout 0 (1 / 2) (1 / 20), Timeout 0 0 0] initialHome
   = Inr opponentsTurn"
  by (simp add: eval_defs opponentsTurn_def Solar_Bloom_def)

lemma reachable_opponentsTurn: "reachable opponentsTurn"
  by (rule reachable_run [OF reachable.init _ opponentsTurn_run]) (simp add: is_draw_def)

lemma midBattle_run:
  "run [OpponentTimeout (3 / 10), Timeout 0 (1 / 2) (1 / 20), Timeout 0 0 0] opponentsTurn
   = Inr midBattle"
  by (simp add: eval_defs midBattle_def opponentsTurn_def Ion_Crash_def opponentPending_def
      opponentTimeout_def chooseMove_def)

lemma reachable_midBattle: "reachable midBattle"
  by (rule reachable_run [OF reachable_opponentsTurn _ midBattle_run]) (simp add: is_draw_def)

section \<open>Submissions\<close>

text \<open>
  Claim C1, as the specification states it, fails: \<open>resolveTurn\<close> does not look at
  \<open>turn\<close>.  In the initial state it is the player's turn, no victor is set, nothing is
  in flight and the opponent has positive health; a submission for the opponent sets
  the busy flag and records the opponent as the side to move.
\<close>

theorem wrong_turn_counterexample:
  "turn (battle initialHome) \<noteq> Opponent \<and> victor (battleRef initialHome) = None \<and>
   \<not> isResolving initialHome \<and> 0 < hp (pokemon_of (battleRef initialHome) Opponent) \<and>
   resolveTurn Opponent Ion_Crash initialHome \<noteq> initialHome \<and>
   battle (resolveTurn Opponent Ion_Crash initialHome) \<noteq> battle initialHome \<and>
   turn (battle (resolveTurn Opponent Ion_Crash initialHome)) = Opponent \<and>
   isResolving (resolveTurn Opponent Ion_Crash initialHome)"
  by (simp add: initialHome_def INITIAL_STATE_def OPPONENT_TEAM_def createPokemon_def
      resolveTurn_def rejects_def)

text \<open>
  Claim C1, amended.  A submission by the side whose turn it is not, while no victor is
  set, no resolution is in flight and the submitter has positive health, is accepted:
  \<open>resolveTurn\<close> sets the busy flag, records the submitting side as the side to move
  and sets the timeout of the resolution, so the state changes; the combatants, the
  victor and the Battle Log are as before.  The component itself makes no such call:
  in that state the player's buttons are disabled and the opponent's timeout is not
  pending.
\<close>

theorem wrong_turn_accepted:
  assumes "turn (battle h) \<noteq> side" and "victor (battleRef h) = None" and "\<not> isResolving h"
    and "0 < hp (pokemon_of (battleRef h) side)"
  shows "resolveTurn side move h =
           h\<lparr>isResolving := True, battle := (battle h)\<lparr>turn := side\<rparr>,
             timeouts := timeouts h @ [Resolution side move]\<rparr> \<and>
         resolveTurn side move h \<noteq> h \<and>
         battle (resolveTurn side move h) \<noteq> battle h \<and>
         battleLog (resolveTurn side move h) = battleLog h \<and>
         (side = Player \<longrightarrow> playerDisabled h) \<and>
         (side = Opponent \<longrightarrow> \<not> opponentPending h)"
proof -
  from assms have eq: "resolveTurn side move h =
           h\<lparr>isResolving := True, battle := (battle h)\<lparr>turn := side\<rparr>,
             timeouts := timeouts h @ [Resolution side move]\<rparr>"
    by (simp add: resolveTurn_def rejects_def)
  have "turn (battle (resolveTurn side move h)) = side" by (simp add: eq)
  with assms(1) have ne: "battle (resolveTurn side move h) \<noteq> battle h" by auto
  then have "resolveTurn side move h \<noteq> h" by auto
  moreover have "(side = Player \<longrightarrow> playerDisabled h) \<and> (side = Opponent \<longrightarrow> \<not> opponentPending h)"
    using assms(1) by (auto simp add: playerDisabled_def opponentPending_def)
  ultimately show ?thesis using eq ne by simp
qed

theorem wrong_turn_accepted_witness:
  "turn (battle initialHome) \<noteq> Opponent \<and>
   resolveTurn Opponent Ion_Crash initialHome =
     initialHome\<lparr>isResolving := True, battle := (battle initialHome)\<lparr>turn := Opponent\<rparr>,
       timeouts := [Resolution Opponent Ion_Crash]\<rparr> \<and>
   \<not> opponentPending initialHome"
  using wrong_turn_accepted [of initialHome Opponent Ion_Crash]
  by (simp add: initialHome_def INITIAL_STATE_def OPPONENT_TEAM_def createPokemon_def)

text \<open>
  What the guard of \<open>resolveTurn\<close> does reject: if a victor is set, or the flag
  \<open>isResolving\<close> is up, or the submitting side's combatant has no health left (in the
  snapshot \<open>battleRef.current\<close>), the call changes nothing.
\<close>

lemma rejected_submission_noop:
  assumes "victor (battleRef h) \<noteq> None \<or> isResolving h \<or> hp (pokemon_of (battleRef h) side) \<le> 0"
  shows "resolveTurn side move h = h \<and>
         (battleRef h = battle h \<longrightarrow> dispatch (SubmitMove side move) h = Inr h)"
  using assms by (auto simp add: resolveTurn_def rejects_def dispatch_def sync_ref_def)

lemma rejected_submission_examples:
  "victor (battleRef concluded) \<noteq> None \<and> hp (pokemon_of (battleRef concluded) Opponent) = 0 \<and>
   battleRef concluded = battle concluded \<and>
   dispatch (SubmitMove Player Flare_Cascade) concluded = Inr concluded \<and>
   dispatch (SubmitMove Opponent Ion_Crash) concluded = Inr concluded \<and>
   resolveTurn Player Flare_Cascade (initialHome\<lparr>isResolving := True\<rparr>)
     = initialHome\<lparr>isResolving := True\<rparr>"
  using rejected_submission_noop [of concluded Player Flare_Cascade]
    rejected_submission_noop [of concluded Opponent Ion_Crash]
    rejected_submission_noop [of "initialHome\<lparr>isResolving := True\<rparr>" Player Flare_Cascade]
  by (simp add: concluded_def initialHome_def)

text \<open>
  Claim C6 does not hold of the code where a resolution is in flight while the flag
  \<open>isResolving\<close> is down.  The player submits Flare Cascade and \<open>resetBattle\<close> runs before
  the 620 ms timeout: the timeout of that resolution is still pending, the flag is
  down, it is the player's turn and no victor is set, so the player's buttons are
  enabled.  A second submission is then accepted: it raises the flag and sets a second
  timeout, so two resolutions are in flight.
\<close>

theorem submission_accepted_in_flight:
  "\<exists>h1. run [SubmitMove Player Flare_Cascade, ResetBattle] initialHome = Inr h1 \<and>
         timeouts h1 = [Resolution Player Flare_Cascade] \<and>
         \<not> isResolving h1 \<and> turn (battle h1) = Player \<and> victor (battle h1) = None \<and>
         (\<exists>h2. dispatch (SubmitMove Player Solar_Bloom) h1 = Inr h2 \<and> h2 \<noteq> h1 \<and>
               isResolving h2 \<and>
               timeouts h2 = [Resolution Player Flare_Cascade, Resolution Player Solar_Bloom])"
  by (simp add: dispatch_def resolveTurn_def rejects_def initialHome_def INITIAL_STATE_def
      PLAYER_TEAM_def OPPONENT_TEAM_def createPokemon_def sync_ref_def resetBattle_def
      freshState_def)

section \<open>Reset during a resolution\<close>

text \<open>
  Claim C2 does not hold of the code.  The player submits Flare Cascade, \<open>resetBattle\<close>
  runs before the 620 ms timeout, and the timeout, which nothing has cleared, still
  runs: after the reset the state is the fresh one and the timeout is pending; its
  callback then takes 17 points from the opponent of the fresh battle, hands the turn
  to the opponent and writes two lines into the fresh log.
\<close>

theorem reset_mid_resolution_stale_applied:
  "(\<exists>h1. run [SubmitMove Player Flare_Cascade, ResetBattle] initialHome = Inr h1 \<and>
          battle h1 = freshState \<and> battleRef h1 = freshState \<and> battleLog h1 = [openingLine] \<and>
          timeouts h1 = [Resolution Player Flare_Cascade]) \<and>
   (\<exists>h2. run [SubmitMove Player Flare_Cascade, ResetBattle, Timeout 0 (1 / 2) (1 / 2)] initialHome
            = Inr h2 \<and>
          battle h2 \<noteq> freshState \<and>
          hp (opponent (battle h2)) = 253 \<and> turn (battle h2) = Opponent \<and>
          battleLog h2 = [''Solaris used Flare Cascade!'',
                          ''It'' @ rsquo @ ''s not very effective'' @ hellip, openingLine])"
  by (simp add: eval_defs Flare_Cascade_def)

section \<open>The outcome of a resolution\<close>

text \<open>What the state \<open>updated\<close> of the callback holds, with both sides written out.\<close>

lemma applied_outcome:
  assumes "victor s = None"
  shows "let other = (case side of Player \<Rightarrow> Opponent | Opponent \<Rightarrow> Player);
             defender = (case side of Player \<Rightarrow> opponent s | Opponent \<Rightarrow> player s);
             defender' = (case side of Player \<Rightarrow> opponent (applied side move rnd1 rnd2 s)
                                     | Opponent \<Rightarrow> player (applied side move rnd1 rnd2 s));
             dmg = damage (calculateDamage rnd1 rnd2 move defender);
             nextHp = hp defender'
         in nextHp = clamp (hp defender - dmg) 0 (maxHp defender) \<and>
            0 \<le> nextHp \<and> (0 \<le> maxHp defender \<longrightarrow> nextHp \<le> maxHp defender) \<and>
            (if nextHp = 0 then victor (applied side move rnd1 rnd2 s) = Some side
             else turn (applied side move rnd1 rnd2 s) = other \<and>
                  victor (applied side move rnd1 rnd2 s) = None)"
proof -
  let ?a = "applied side move rnd1 rnd2 s"
  let ?d = "pokemon_of s (defenderSide_of side)"
  let ?n = "hp (pokemon_of ?a (defenderSide_of side))"
  have n: "?n = clamp (hp ?d - damage (calculateDamage rnd1 rnd2 move ?d)) 0 (maxHp ?d)"
    by (simp add: applied_defender)
  have lo: "0 \<le> ?n" by (simp add: n clamp_nonneg)
  have hi: "0 \<le> maxHp ?d \<longrightarrow> ?n \<le> maxHp ?d"
    using clamp_bounds [of 0 "maxHp ?d"] by (simp add: n)
  have v: "victor ?a = (if ?n = 0 then Some side else None)"
    using assms by (simp add: applied_victor)
  have t: "turn ?a = defenderSide_of side" by (simp add: applied_turn)
  show ?thesis
  proof (cases side)
    case Player
    with n lo hi v t show ?thesis by (simp add: Let_def)
  next
    case Opponent
    with n lo hi v t show ?thesis by (simp add: Let_def)
  qed
qed

text \<open>
  Claim C5.  Let a submission be accepted in a rendered state in which nothing is in
  flight (no victor, the flag down, no timeout pending, the submitter with health
  left), and let its timeout run.  Then the defender, who is the opponent if the player
  submitted and the player if the opponent submitted, has its old health minus the
  resolved damage, not below 0 and not above \<open>maxHp\<close>; if that is 0, the victor is the
  submitting side, and otherwise the turn is the other side's and no victor is set.
  The same holds of the callback in whatever state \<open>g\<close> it runs, as long as it applies
  the resolution (the submitter has health left and no victor is set); the old health
  is then the one the callback reads.
\<close>

theorem accepted_submission_outcome:
  assumes "victor (battleRef h) = None" and "\<not> isResolving h" and "timeouts h = []"
    and "0 < hp (case side of Player \<Rightarrow> player (battleRef h) | Opponent \<Rightarrow> opponent (battleRef h))"
    and "battleRef h = battle h"
  shows "(\<exists>h'. run [SubmitMove side move, Timeout 0 rnd1 rnd2] h = Inr h' \<and>
           (let other = (case side of Player \<Rightarrow> Opponent | Opponent \<Rightarrow> Player);
                defender = (case side of Player \<Rightarrow> opponent (battle h)
                                       | Opponent \<Rightarrow> player (battle h));
                defender' = (case side of Player \<Rightarrow> opponent (battle h')
                                        | Opponent \<Rightarrow> player (battle h'));
                dmg = damage (calculateDamage rnd1 rnd2 move defender);
                nextHp = hp defender'
            in nextHp = clamp (hp defender - dmg) 0 (maxHp defender) \<and>
               0 \<le> nextHp \<and> (0 \<le> maxHp defender \<longrightarrow> nextHp \<le> maxHp defender) \<and>
               (if nextHp = 0 then victor (battle h') = Some side
                else turn (battle h') = other \<and> victor (battle h') = None))) \<and>
         (0 < hp (case side of Player \<Rightarrow> player (battleRef g) | Opponent \<Rightarrow> opponent (battleRef g)) \<and>
          victor (battleRef g) = None \<longrightarrow>
           (let g' = resolution side move rnd1 rnd2 g;
                other = (case side of Player \<Rightarrow> Opponent | Opponent \<Rightarrow> Player);
                defender = (case side of Player \<Rightarrow> opponent (battleRef g)
                                       | Opponent \<Rightarrow> player (battleRef g));
                defender' = (case side of Player \<Rightarrow> opponent (battle g')
                                        | Opponent \<Rightarrow> player (battle g'));
                dmg = damage (calculateDamage rnd1 rnd2 move defender);
                nextHp = hp defender'
            in nextHp = clamp (hp defender - dmg) 0 (maxHp defender) \<and>
               0 \<le> nextHp \<and> (0 \<le> maxHp defender \<longrightarrow> nextHp \<le> maxHp defender) \<and>
               (if nextHp = 0 then victor (battle g') = Some side
                else turn (battle g') = other \<and> victor (battle g') = None)))"
proof (intro conjI impI)
  let ?s = "(battle h)\<lparr>turn := side\<rparr>"
  let ?h1 = "h\<lparr>isResolving := True, battle := ?s, battleRef := ?s\<rparr>"
  let ?h2 = "sync_ref (resolution side move rnd1 rnd2 ?h1)"
  have att: "0 < hp (pokemon_of (battleRef h) side)" using assms(4) by (cases side) simp_all
  then have "\<not> rejects side h" using assms by (simp add: rejects_def)
  then have "run [SubmitMove side move, Timeout (length (timeouts h)) rnd1 rnd2] h = Inr ?h2"
    by (rule submit_then_timeout)
  then have run: "run [SubmitMove side move, Timeout 0 rnd1 rnd2] h = Inr ?h2"
    by (simp only: assms(3) list.size)
  have a: "0 < hp (pokemon_of (battleRef ?h1) side)" "victor (battleRef ?h1) = None"
    using assms att by simp_all
  have b: "battle ?h2 = applied side move rnd1 rnd2 ?s"
    using resolution_applied [OF a, of move rnd1 rnd2] by (simp add: Let_def sync_ref_def)
  have vs: "victor ?s = None" using assms(1,5) by simp
  have "let other = (case side of Player \<Rightarrow> Opponent | Opponent \<Rightarrow> Player);
            defender = (case side of Player \<Rightarrow> opponent (battle h) | Opponent \<Rightarrow> player (battle h));
            defender' = (case side of Player \<Rightarrow> opponent (battle ?h2)
                                    | Opponent \<Rightarrow> player (battle ?h2));
            dmg = damage (calculateDamage rnd1 rnd2 move defender);
            nextHp = hp defender'
        in nextHp = clamp (hp defender - dmg) 0 (maxHp defender) \<and>
           0 \<le> nextHp \<and> (0 \<le> maxHp defender \<longrightarrow> nextHp \<le> maxHp defender) \<and>
           (if nextHp = 0 then victor (battle ?h2) = Some side
            else turn (battle ?h2) = other \<and> victor (battle ?h2) = None)"
    using applied_outcome [OF vs, of side move rnd1 rnd2]
    unfolding b Let_def by (cases side) auto
  with run show "\<exists>h'. run [SubmitMove side move, Timeout 0 rnd1 rnd2] h = Inr h' \<and>
           (let other = (case side of Player \<Rightarrow> Opponent | Opponent \<Rightarrow> Player);
                defender = (case side of Player \<Rightarrow> opponent (battle h)
                                       | Opponent \<Rightarrow> player (battle h));
                defender' = (case side of Player \<Rightarrow> opponent (battle h')
                                        | Opponent \<Rightarrow> player (battle h'));
                dmg = damage (calculateDamage rnd1 rnd2 move defender);
                nextHp = hp defender'
            in nextHp = clamp (hp defender - dmg) 0 (maxHp defender) \<and>
               0 \<le> nextHp \<and> (0 \<le> maxHp defender \<longrightarrow> nextHp \<le> maxHp defender) \<and>
               (if nextHp = 0 then victor (battle h') = Some side
                else turn (battle h') = other \<and> victor (battle h') = None))"
    by blast
next
  assume g: "0 < hp (case side of Player \<Rightarrow> player (battleRef g) | Opponent \<Rightarrow> opponent (battleRef g)) \<and>
             victor (battleRef g) = None"
  then have "0 < hp (pokemon_of (battleRef g) side)" by (cases side) simp_all
  with g have b: "battle (resolution side move rnd1 rnd2 g) = applied side move rnd1 rnd2 (battleRef g)"
    using resolution_applied [of g side move rnd1 rnd2] by (simp add: Let_def)
  from g have vg: "victor (battleRef g) = None" by simp
  show "let g' = resolution side move rnd1 rnd2 g;
            other = (case side of Player \<Rightarrow> Opponent | Opponent \<Rightarrow> Player);
            defender = (case side of Player \<Rightarrow> opponent (battleRef g)
                                   | Opponent \<Rightarrow> player (battleRef g));
            defender' = (case side of Player \<Rightarrow> opponent (battle g')
                                    | Opponent \<Rightarrow> player (battle g'));
            dmg = damage (calculateDamage rnd1 rnd2 move defender);
            nextHp = hp defender'
        in nextHp = clamp (hp defender - dmg) 0 (maxHp defender) \<and>
           0 \<le> nextHp \<and> (0 \<le> maxHp defender \<longrightarrow> nextHp \<le> maxHp defender) \<and>
           (if nextHp = 0 then victor (battle g') = Some side
            else turn (battle g') = other \<and> victor (battle g') = None)"
    using applied_outcome [OF vg, of side move rnd1 rnd2]
    unfolding b Let_def by (cases side) auto
qed

text \<open>The witnesses: the player's critical Solar Bloom takes 80 of the opponent's 270
  and the turn goes to the opponent; the opponent's critical Ion Crash takes 25 of the
  player's 260 and the turn goes to the player; against an opponent with 40 left the
  Solar Bloom takes the rest and the player wins; and a callback that finds the
  opponent at 253 leaves it at 173.\<close>

theorem accepted_submission_outcome_witness:
  "(\<exists>h'. run [SubmitMove Player Solar_Bloom, Timeout 0 (1 / 2) (1 / 20)] initialHome = Inr h' \<and>
          hp (opponent (battle h')) = 190 \<and> hp (player (battle h')) = 260 \<and>
          turn (battle h') = Opponent \<and> victor (battle h') = None) \<and>
   (\<exists>h'. run [SubmitMove Opponent Ion_Crash, Timeout 0 (1 / 2) (1 / 20)] opponentsTurn = Inr h' \<and>
          hp (player (battle h')) = 235 \<and> hp (opponent (battle h')) = 190 \<and>
          turn (battle h') = Player \<and> victor (battle h') = None) \<and>
   (\<exists>h'. run [SubmitMove Player Solar_Bloom, Timeout 0 (1 / 2) (1 / 20)]
            (initialHome\<lparr>battle := INITIAL_STATE\<lparr>opponent := OPPONENT_TEAM\<lparr>hp := 40\<rparr>\<rparr>,
                         battleRef := INITIAL_STATE\<lparr>opponent := OPPONENT_TEAM\<lparr>hp := 40\<rparr>\<rparr>\<rparr>) = Inr h' \<and>
          hp (opponent (battle h')) = 0 \<and> victor (battle h') = Some Player) \<and>
   hp (opponent (battle (resolution Player Solar_Bloom (1 / 2) (1 / 20)
         (initialHome\<lparr>battleRef := INITIAL_STATE\<lparr>opponent := OPPONENT_TEAM\<lparr>hp := 253\<rparr>\<rparr>\<rparr>)))) = 173"
  using accepted_submission_outcome
      [of initialHome Player Solar_Bloom "1 / 2" "1 / 20"
          "initialHome\<lparr>battleRef := INITIAL_STATE\<lparr>opponent := OPPONENT_TEAM\<lparr>hp := 253\<rparr>\<rparr>\<rparr>"]
    accepted_submission_outcome [of opponentsTurn Opponent Ion_Crash "1 / 2" "1 / 20" opponentsTurn]
    accepted_submission_outcome
      [of "initialHome\<lparr>battle := INITIAL_STATE\<lparr>opponent := OPPONENT_TEAM\<lparr>hp := 40\<rparr>\<rparr>,
                       battleRef := INITIAL_STATE\<lparr>opponent := OPPONENT_TEAM\<lparr>hp := 40\<rparr>\<rparr>\<rparr>"
          Player Solar_Bloom "1 / 2" "1 / 20" initialHome]
  by (simp add: eval_defs opponentsTurn_def Solar_Bloom_def Ion_Crash_def)

section \<open>The Battle Log\<close>

text \<open>
  Claim C7.  A resolution that is applied (the submitter has health left and no victor
  is set when its timeout runs) puts in front of the Battle Log, in this order: the
  line \<open><attacker> used <move>!\<close>; the line \<open>A critical hit!\<close> iff the crit flag is set;
  the line \<open>It's super effective!\<close> iff the effectiveness is above 1.5, the line
  \<open>It's not very effective...\<close> iff it is below 1, and neither of them otherwise; and the
  line \<open><defender> fainted.\<close> iff the defender's new health is 0.  These are one to four
  lines.  (The source writes the apostrophe as U+2019 and the ellipsis as U+2026.)
\<close>

theorem resolved_turn_messages:
  assumes "0 < hp (pokemon_of (battleRef h) side)" and "victor (battleRef h) = None"
  shows "let attacker = pokemon_of (battleRef h) side;
             defender = pokemon_of (battleRef h) (defenderSide_of side);
             r = calculateDamage rnd1 rnd2 move defender;
             h' = resolution side move rnd1 rnd2 h;
             nextHp = hp (pokemon_of (battle h') (defenderSide_of side));
             msgs = [name attacker @ '' used '' @ mname move @ ''!''] @
                    (if crit r then [''A critical hit!''] else []) @
                    (if effectiveness r > 1.5 then [''It'' @ rsquo @ ''s super effective!'']
                     else if effectiveness r < 1
                       then [''It'' @ rsquo @ ''s not very effective'' @ hellip]
                     else []) @
                    (if nextHp = 0 then [name defender @ '' fainted.''] else [])
         in battleLog h' = take 8 (msgs @ battleLog h) \<and>
            battleLog h' = msgs @ take (8 - length msgs) (battleLog h) \<and>
            1 \<le> length msgs \<and> length msgs \<le> 4"
proof -
  let ?d = "pokemon_of (battleRef h) (defenderSide_of side)"
  let ?r = "calculateDamage rnd1 rnd2 move ?d"
  let ?n = "clamp (hp ?d - damage ?r) 0 (maxHp ?d)"
  let ?m = "messages_of (pokemon_of (battleRef h) side) move ?d ?r ?n"
  let ?h' = "resolution side move rnd1 rnd2 h"
  have log: "battleLog ?h' = take 8 (?m @ battleLog h)"
    and bat: "battle ?h' = applied side move rnd1 rnd2 (battleRef h)"
    using resolution_applied [OF assms, of move rnd1 rnd2] by (simp_all add: Let_def)
  have hp': "hp (pokemon_of (battle ?h') (defenderSide_of side)) = ?n"
    by (simp add: bat applied_defender)
  have z: "(?n \<le> 0) = (?n = 0)"
    using clamp_nonneg [of "hp ?d - damage ?r" "maxHp ?d"] by linarith
  have len: "1 \<le> length ?m \<and> length ?m \<le> 4" by (rule messages_of_length)
  then have "take 8 (?m @ battleLog h) = ?m @ take (8 - length ?m) (battleLog h)"
    by (intro take_8_messages) simp
  with log len show ?thesis
    unfolding Let_def hp' by (simp only: messages_of_eq z)
qed

text \<open>The witnesses: a critical Flare Cascade on the first turn gives three lines; a
  critical Solar Bloom against an opponent with 40 left gives all four.\<close>

theorem resolved_turn_messages_witness:
  "battleLog (resolution Player Flare_Cascade (1 / 2) (1 / 20) initialHome) =
     [''Solaris used Flare Cascade!'', ''A critical hit!'',
      ''It'' @ rsquo @ ''s not very effective'' @ hellip, openingLine] \<and>
   battleLog (resolution Player Solar_Bloom (1 / 2) (1 / 20)
      (initialHome\<lparr>battleRef := INITIAL_STATE\<lparr>opponent := OPPONENT_TEAM\<lparr>hp := 40\<rparr>\<rparr>\<rparr>)) =
     [''Solaris used Solar Bloom!'', ''A critical hit!'',
      ''It'' @ rsquo @ ''s super effective!'', ''Tidal Vanguard fainted.'', openingLine]"
  using resolved_turn_messages [of initialHome Player "1 / 2" "1 / 20" Flare_Cascade]
    resolved_turn_messages
      [of "initialHome\<lparr>battleRef := INITIAL_STATE\<lparr>opponent := OPPONENT_TEAM\<lparr>hp := 40\<rparr>\<rparr>\<rparr>"
          Player "1 / 2" "1 / 20" Solar_Bloom]
  by (simp add: eval_defs Flare_Cascade_def Solar_Bloom_def)

text \<open>
  Claim C8.  In every reachable state the Battle Log has at most 8 entries.  When a
  resolution is applied, the new log begins with all the lines of the turn, in their
  order, which are the most recent; behind them comes the old log without its last
  \<open>excess\<close> entries, where \<open>excess\<close> is the number by which the lines of the turn and the
  old log together exceed 8 (none if they do not).  So what is discarded is taken from
  the end of the old log, the oldest entries, and never from the new lines.  A
  resolution that is not applied leaves the log as it is.
\<close>

theorem battleLog_capped:
  "(reachable h \<longrightarrow> length (battleLog h) \<le> 8) \<and>
   (0 < hp (pokemon_of (battleRef h) side) \<and> victor (battleRef h) = None \<longrightarrow>
      (let attacker = pokemon_of (battleRef h) side;
           defender = pokemon_of (battleRef h) (defenderSide_of side);
           r = calculateDamage rnd1 rnd2 move defender;
           h' = resolution side move rnd1 rnd2 h;
           nextHp = hp (pokemon_of (battle h') (defenderSide_of side));
           msgs = [name attacker @ '' used '' @ mname move @ ''!''] @
                  (if crit r then [''A critical hit!''] else []) @
                  (if effectiveness r > 1.5 then [''It'' @ rsquo @ ''s super effective!'']
                   else if effectiveness r < 1
                     then [''It'' @ rsquo @ ''s not very effective'' @ hellip]
                   else []) @
                  (if nextHp = 0 then [name defender @ '' fainted.''] else []);
           old = battleLog h;
           excess = length msgs + length old - 8
       in take (length msgs) (battleLog h') = msgs \<and>
          drop (length msgs) (battleLog h') = take (length old - excess) old \<and>
          old = take (length old - excess) old @ drop (length old - excess) old \<and>
          length (drop (length old - excess) old) = min excess (length old) \<and>
          (length old \<le> 8 \<longrightarrow> length (battleLog h') = min 8 (length msgs + length old)))) \<and>
   (hp (pokemon_of (battleRef h) side) \<le> 0 \<or> victor (battleRef h) \<noteq> None \<longrightarrow>
      battleLog (resolution side move rnd1 rnd2 h) = battleLog h)"
proof (intro conjI impI)
  assume "reachable h"
  then show "length (battleLog h) \<le> 8" by (rule reachable_log_length)
next
  assume "hp (pokemon_of (battleRef h) side) \<le> 0 \<or> victor (battleRef h) \<noteq> None"
  then have "resolution side move rnd1 rnd2 h = h\<lparr>isResolving := False\<rparr>"
    by (rule resolution_aborted)
  then show "battleLog (resolution side move rnd1 rnd2 h) = battleLog h" by simp
next
  assume ok: "0 < hp (pokemon_of (battleRef h) side) \<and> victor (battleRef h) = None"
  let ?d = "pokemon_of (battleRef h) (defenderSide_of side)"
  let ?r = "calculateDamage rnd1 rnd2 move ?d"
  let ?n = "clamp (hp ?d - damage ?r) 0 (maxHp ?d)"
  let ?m = "messages_of (pokemon_of (battleRef h) side) move ?d ?r ?n"
  let ?h' = "resolution side move rnd1 rnd2 h"
  let ?old = "battleLog h"
  let ?e = "length ?m + length ?old - 8"
  have log: "battleLog ?h' = take 8 (?m @ ?old)"
    and bat: "battle ?h' = applied side move rnd1 rnd2 (battleRef h)"
    using ok resolution_applied [of h side move rnd1 rnd2] by (simp_all add: Let_def)
  have hp': "hp (pokemon_of (battle ?h') (defenderSide_of side)) = ?n"
    by (simp add: bat applied_defender)
  have z: "(?n \<le> 0) = (?n = 0)"
    using clamp_nonneg [of "hp ?d - damage ?r" "maxHp ?d"] by linarith
  have m4: "length ?m \<le> 4" using messages_of_length by blast
  have new: "battleLog ?h' = ?m @ take (length ?old - ?e) ?old"
    unfolding log using m4 by (intro take_8_excess) simp
  have me: "?m = [name (pokemon_of (battleRef h) side) @ '' used '' @ mname move @ ''!''] @
                  (if crit ?r then [''A critical hit!''] else []) @
                  (if effectiveness ?r > 1.5 then [''It'' @ rsquo @ ''s super effective!'']
                   else if effectiveness ?r < 1
                     then [''It'' @ rsquo @ ''s not very effective'' @ hellip]
                   else []) @
                  (if ?n = 0 then [name ?d @ '' fainted.''] else [])"
    by (simp only: messages_of_eq z)
  have all: "take (length ?m) (battleLog ?h') = ?m \<and>
        drop (length ?m) (battleLog ?h') = take (length ?old - ?e) ?old \<and>
        ?old = take (length ?old - ?e) ?old @ drop (length ?old - ?e) ?old \<and>
        length (drop (length ?old - ?e) ?old) = min ?e (length ?old) \<and>
        (length ?old \<le> 8 \<longrightarrow> length (battleLog ?h') = min 8 (length ?m + length ?old))"
    using m4 by (auto simp add: new)
  show "let attacker = pokemon_of (battleRef h) side;
           defender = pokemon_of (battleRef h) (defenderSide_of side);
           r = calculateDamage rnd1 rnd2 move defender;
           h' = resolution side move rnd1 rnd2 h;
           nextHp = hp (pokemon_of (battle h') (defenderSide_of side));
           msgs = [name attacker @ '' used '' @ mname move @ ''!''] @
                  (if crit r then [''A critical hit!''] else []) @
                  (if effectiveness r > 1.5 then [''It'' @ rsquo @ ''s super effective!'']
                   else if effectiveness r < 1
                     then [''It'' @ rsquo @ ''s not very effective'' @ hellip]
                   else []) @
                  (if nextHp = 0 then [name defender @ '' fainted.''] else []);
           old = battleLog h;
           excess = length msgs + length old - 8
       in take (length msgs) (battleLog h') = msgs \<and>
          drop (length msgs) (battleLog h') = take (length old - excess) old \<and>
          old = take (length old - excess) old @ drop (length old - excess) old \<and>
          length (drop (length old - excess) old) = min excess (length old) \<and>
          (length old \<le> 8 \<longrightarrow> length (battleLog h') = min 8 (length msgs + length old))"
    unfolding Let_def hp' me [symmetric] by (rule all)
qed

text \<open>The witness: in the reachable state \<open>midBattle\<close> the log has 7 entries; the three
  lines of a critical Solar Bloom make 10, and the two oldest, the last two of the old
  log, are dropped.\<close>

theorem battleLog_capped_witness:
  "reachable midBattle \<and> length (battleLog midBattle) = 7 \<and>
   battleLog (resolution Player Solar_Bloom (1 / 2) (1 / 20) midBattle) =
     [''Solaris used Solar Bloom!'', ''A critical hit!'', ''It'' @ rsquo @ ''s super effective!'']
     @ take 5 (battleLog midBattle) \<and>
   drop 5 (battleLog midBattle) = [''It'' @ rsquo @ ''s super effective!'', openingLine]"
  using battleLog_capped [of midBattle Player "1 / 2" "1 / 20" Solar_Bloom] reachable_midBattle
  by (simp add: eval_defs midBattle_def Solar_Bloom_def)

section \<open>The opponent's move\<close>

lemma floor_draw_index:
  assumes "is_draw r" and "0 < n"
  shows "0 \<le> \<lfloor>r * real n\<rfloor> \<and> \<lfloor>r * real n\<rfloor> < int n"
proof -
  from assms have "0 \<le> r * real n" and "r * real n < real n"
    by (simp_all add: is_draw_def)
  then show ?thesis by (simp add: floor_less_iff)
qed

lemma chooseMove_index:
  assumes "is_draw r" and "ms \<noteq> []"
  shows "nat \<lfloor>r * real (length ms)\<rfloor> < length ms \<and>
         chooseMove r ms = Some (ms ! nat \<lfloor>r * real (length ms)\<rfloor>)"
proof -
  have "0 < length ms" using assms(2) by simp
  from floor_draw_index [OF assms(1) this]
  have lo: "0 \<le> \<lfloor>r * real (length ms)\<rfloor>" and hi: "\<lfloor>r * real (length ms)\<rfloor> < int (length ms)"
    by blast+
  from lo hi have "nat \<lfloor>r * real (length ms)\<rfloor> < length ms" by linarith
  moreover from lo hi have "chooseMove r ms = Some (ms ! nat \<lfloor>r * real (length ms)\<rfloor>)"
    unfolding chooseMove_def Let_def by (simp only: conj_commute if_True simp_thms)
  ultimately show ?thesis by blast
qed

text \<open>
  Claim C9.  In every reachable state and for every draw \<open>rnd\<close> in \<open>[0, 1)\<close>, the move
  chosen for the opponent is the element of the opponent's own move list at index
  \<open>floor (rnd * number of moves)\<close>, which is inside the list, so the move is a member of
  it; the index is \<open>k\<close> exactly for the draws in \<open>[k / n, (k + 1) / n)\<close>, intervals of
  equal length, which is what uniform choice means for a uniform draw.  The
  opponent's timeout submits that move if the turn is the opponent's, no victor is set
  and nothing is in flight, and does nothing otherwise; so it never submits while a
  victor is set.
\<close>

theorem opponent_policy:
  assumes "reachable h" and "is_draw rnd"
  shows "let ms = moves (opponent (battleRef h));
             i = nat \<lfloor>rnd * real (length ms)\<rfloor>
         in i < length ms \<and> chooseMove rnd ms = Some (ms ! i) \<and> ms ! i \<in> set ms \<and>
            (\<forall>k < length ms. (i = k) = (real k / real (length ms) \<le> rnd \<and>
                                        rnd < (real k + 1) / real (length ms))) \<and>
            handler (OpponentTimeout rnd) h =
              (if turn (battle h) = Opponent \<and> victor (battle h) = None \<and> \<not> isResolving h
               then Inr (resolveTurn Opponent (ms ! i) h) else Inr h)"
proof -
  let ?ms = "moves (opponent (battleRef h))"
  let ?i = "nat \<lfloor>rnd * real (length ?ms)\<rfloor>"
  have ne: "?ms \<noteq> []" using assms(1) by (simp add: reachable_opponent_moves)
  then have n0: "0 < real (length ?ms)" by simp
  have idx: "?i < length ?ms" and ch: "chooseMove rnd ?ms = Some (?ms ! ?i)"
    using chooseMove_index [OF assms(2) ne] by simp_all
  have uni: "\<forall>k < length ?ms. (?i = k) = (real k / real (length ?ms) \<le> rnd \<and>
                                            rnd < (real k + 1) / real (length ?ms))"
  proof (intro allI impI)
    fix k
    have nn: "0 \<le> \<lfloor>rnd * real (length ?ms)\<rfloor>"
      using floor_draw_index [OF assms(2), of "length ?ms"] ne by simp
    have "(?i = k) = (\<lfloor>rnd * real (length ?ms)\<rfloor> = int k)" using nn by auto
    also have "\<dots> = (real k \<le> rnd * real (length ?ms) \<and> rnd * real (length ?ms) < real k + 1)"
      by (simp add: floor_eq_iff)
    also have "\<dots> = (real k / real (length ?ms) \<le> rnd \<and> rnd < (real k + 1) / real (length ?ms))"
      using n0 by (simp add: pos_divide_le_eq pos_less_divide_eq)
    finally show "(?i = k) = (real k / real (length ?ms) \<le> rnd \<and>
                              rnd < (real k + 1) / real (length ?ms))" .
  qed
  have hd: "handler (OpponentTimeout rnd) h =
              (if turn (battle h) = Opponent \<and> victor (battle h) = None \<and> \<not> isResolving h
               then Inr (resolveTurn Opponent (?ms ! ?i) h) else Inr h)"
    by (simp add: opponentPending_def opponentTimeout_def ch)
  show ?thesis unfolding Let_def using idx ch uni hd by simp
qed

text \<open>The witnesses: with the draw 0.3 the second of the four moves is chosen; the
  timeout submits it in \<open>opponentsTurn\<close> and does nothing in the initial state, where
  the turn is the player's.\<close>

theorem opponent_policy_witness:
  "is_draw (3 / 10) \<and>
   chooseMove (3 / 10) (moves (opponent (battleRef opponentsTurn))) = Some Ion_Crash \<and>
   handler (OpponentTimeout (3 / 10)) opponentsTurn = Inr (resolveTurn Opponent Ion_Crash opponentsTurn) \<and>
   handler (OpponentTimeout (3 / 10)) initialHome = Inr initialHome"
  using opponent_policy [OF reachable_opponentsTurn, of "3 / 10"]
    opponent_policy [OF reachable.init, of "3 / 10"]
  by (simp add: is_draw_def initialHome_def opponentsTurn_def INITIAL_STATE_def OPPONENT_TEAM_def
      createPokemon_def chooseMove_def Let_def opponentPending_def opponentTimeout_def)

section \<open>What a resolution leaves alone\<close>

text \<open>
  Claim C10.  In every reachable state, the resolution callback leaves the attacking
  combatant as it was and changes nothing of the defending combatant but \<open>hp\<close> (so
  name, maxHp, types, moves, flair and energy stay); a submission changes neither
  combatant nor the victor.  So only the defender's health, the turn and the victor
  can change.  The energy of both combatants is 100 in every reachable state.
\<close>

theorem resolution_frame:
  assumes "reachable h"
  shows "(let h' = resolution side move rnd1 rnd2 h;
              defenderSide = defenderSide_of side
          in pokemon_of (battle h') side = pokemon_of (battle h) side \<and>
             pokemon_of (battle h') defenderSide =
               (pokemon_of (battle h) defenderSide)
                 \<lparr>hp := hp (pokemon_of (battle h') defenderSide)\<rparr>) \<and>
         player (battle (resolveTurn side move h)) = player (battle h) \<and>
         opponent (battle (resolveTurn side move h)) = opponent (battle h) \<and>
         victor (battle (resolveTurn side move h)) = victor (battle h) \<and>
         energy (player (battle h)) = 100 \<and> energy (opponent (battle h)) = 100"
proof -
  have sy: "battleRef h = battle h" using assms by (rule reachable_synced)
  let ?h' = "resolution side move rnd1 rnd2 h"
  have fr: "pokemon_of (battle ?h') side = pokemon_of (battle h) side \<and>
        pokemon_of (battle ?h') (defenderSide_of side) =
          (pokemon_of (battle h) (defenderSide_of side))
            \<lparr>hp := hp (pokemon_of (battle ?h') (defenderSide_of side))\<rparr>"
  proof (cases "0 < hp (pokemon_of (battleRef h) side) \<and> victor (battleRef h) = None")
    case True
    then have "battle ?h' = applied side move rnd1 rnd2 (battle h)"
      using resolution_applied [of h side move rnd1 rnd2] by (simp add: Let_def sy)
    then show ?thesis by (simp add: applied_attacker applied_defender)
  next
    case False
    then have "?h' = h\<lparr>isResolving := False\<rparr>" by (intro resolution_aborted) auto
    then show ?thesis by simp
  qed
  have rt: "player (battle (resolveTurn side move h)) = player (battle h) \<and>
         opponent (battle (resolveTurn side move h)) = opponent (battle h) \<and>
         victor (battle (resolveTurn side move h)) = victor (battle h)"
    by (simp add: resolveTurn_def)
  have "inv h" using assms by (rule reachable_inv)
  then have "player (battle h) = PLAYER_TEAM\<lparr>hp := hp (player (battle h))\<rparr>"
    and "opponent (battle h) = OPPONENT_TEAM\<lparr>hp := hp (opponent (battle h))\<rparr>"
    by (simp_all add: inv_def static_of_def)
  then have "energy (player (battle h)) = energy (PLAYER_TEAM\<lparr>hp := hp (player (battle h))\<rparr>)"
    and "energy (opponent (battle h)) = energy (OPPONENT_TEAM\<lparr>hp := hp (opponent (battle h))\<rparr>)"
    by simp_all
  then have en: "energy (player (battle h)) = 100 \<and> energy (opponent (battle h)) = 100"
    by (simp add: PLAYER_TEAM_def OPPONENT_TEAM_def createPokemon_def)
  show ?thesis unfolding Let_def using fr rt en by simp
qed

theorem resolution_frame_witness:
  "player (battle (resolution Opponent Ion_Crash (1 / 2) (1 / 20) opponentsTurn)) = PLAYER_TEAM\<lparr>hp := 235\<rparr> \<and>
   opponent (battle (resolution Opponent Ion_Crash (1 / 2) (1 / 20) opponentsTurn))
     = opponent (battle opponentsTurn) \<and>
   energy (player (battle opponentsTurn)) = 100"
  using resolution_frame [OF reachable_opponentsTurn, of Opponent Ion_Crash "1 / 2" "1 / 20"]
  by (simp add: eval_defs opponentsTurn_def Ion_Crash_def)

end
